theory Spec2Isabelle
  imports Complex_Main
begin

section \<open>Data model\<close>

text \<open>
  The referral commission engine of the e-learning backend: the lineage stamped on a user
  at registration (\<^verbatim>\<open>crud/user_crud.py\<close>, \<^verbatim>\<open>routes/auth_routes.py\<close>), the
  commission rows written when an invoice is paid (\<^verbatim>\<open>routes/subscription_routes.py\<close>),
  and the ledger operations over them (\<^verbatim>\<open>crud/referral_crud.py\<close>,
  \<^verbatim>\<open>routes/referral_routes.py\<close>).

  Conventions of the embedding.
  \<^item> Python \<^verbatim>\<open>int\<close> is \<open>int\<close>; a nullable column or an \<^verbatim>\<open>Optional\<close> is an
    \<open>option\<close>; \<^verbatim>\<open>Decimal\<close> is taken at its numeric value, a \<open>rat\<close>, so sums and
    products are exact (Python's context keeps 28 significant digits, which the product
    of a ten-digit amount and a rate of up to eighteen digits does not exceed).
  \<^item> A table is the list of its rows in insertion order, with the next value of its
    primary-key sequence beside it. A query filters that list; \<^verbatim>\<open>.first()\<close> is
    \<open>find\<close>.
  \<^item> \<^verbatim>\<open>func.now()\<close> is a clock reading \<open>now\<close> handed to the operation.
  \<^item> Logging and the notification e-mails (whose failures the code catches and drops)
    change no row and are left out.
\<close>

type_synonym decimal = rat

datatype ReferralCommissionStatus = PENDING | APPROVED | PAID | REJECTED

text \<open>\<^verbatim>\<open>models/user_model.py\<close>: the columns the engine reads or writes.\<close>

record user =
  id_u :: int
  firebase_uid :: string
  email :: string
  role :: string
  referral_code :: "string option"
  referred_by_id :: "int option"
  upline_l1_id :: "int option"
  upline_l2_id :: "int option"
  upline_l3_id :: "int option"

text \<open>\<^verbatim>\<open>models/referral_model.py\<close>: one row of \<^verbatim>\<open>referral_earnings\<close>.\<close>

record referral_earning =
  id_e :: int
  user_id :: int
  referred_user_id :: "int option"
  source_payment_id :: "int option"
  commission_amount :: decimal
  commission_rate :: decimal
  referral_level :: int
  status :: ReferralCommissionStatus
  notes_e :: "string option"
  created_at :: nat
  updated_at :: nat

text \<open>\<^verbatim>\<open>schemas/referral_schema.py\<close>: \<^verbatim>\<open>ReferralEarningCreate\<close> and
  \<^verbatim>\<open>ReferralEarningUpdate\<close>.\<close>

record ReferralEarningCreate =
  user_id_in :: int
  referred_user_id_in :: int
  source_payment_id_in :: int
  commission_amount_in :: decimal
  commission_rate_in :: decimal
  referral_level_in :: int
  status_in :: ReferralCommissionStatus
  notes_in :: "string option"

record ReferralEarningUpdate =
  status_upd :: "ReferralCommissionStatus option"
  notes_upd :: "string option"

text \<open>\<^verbatim>\<open>models/payment_model.py\<close>: the columns of a payment the commission loop reads.\<close>

record payment =
  id_p :: int
  payer_user_id :: "int option"
  amount :: decimal

text \<open>The store: the two tables and their primary-key sequences.\<close>

record db =
  users :: "user list"
  referral_earnings :: "referral_earning list"
  users_id_seq :: int
  referral_earnings_id_seq :: int

definition empty_db :: db where
  "empty_db = \<lparr>users = [], referral_earnings = [], users_id_seq = 1,
               referral_earnings_id_seq = 1\<rparr>"

datatype http_exception = HTTPException (status_code: int) (detail: string)

text \<open>The decimal rendering of an integer inside an f-string.\<close>

fun str_nat :: "nat \<Rightarrow> string" where
  "str_nat n =
     (if n < 10 then [''0123456789'' ! n]
      else str_nat (n div 10) @ [''0123456789'' ! (n mod 10)])"

declare str_nat.simps [simp del]

definition str_int :: "int \<Rightarrow> string" where
  "str_int i = (if i < 0 then ''-'' @ str_nat (nat (- i)) else str_nat (nat i))"

text \<open>
  Python truthiness of an \<^verbatim>\<open>Optional[int]\<close>, as in \<^verbatim>\<open>if upline_user_id:\<close>:
  \<^verbatim>\<open>None\<close> and \<^verbatim>\<open>0\<close> are false.
\<close>

fun truthy_id :: "int option \<Rightarrow> bool" where
  "truthy_id None = False"
| "truthy_id (Some i) = (i \<noteq> 0)"

section \<open>Column types\<close>

text \<open>
  \<^verbatim>\<open>commission_amount\<close> is declared \<^verbatim>\<open>DECIMAL(10, 2)\<close> and
  \<^verbatim>\<open>commission_rate\<close> \<^verbatim>\<open>DECIMAL(5, 4)\<close>. The Python code hands the store the
  unrounded product; what \<^verbatim>\<open>db.refresh\<close> reads back is the value at the column's
  scale. The configured store is PostgreSQL (\<^verbatim>\<open>core/database.py\<close>), whose
  \<^verbatim>\<open>numeric(p, s)\<close> rounds to \<open>s\<close> fractional digits, ties away from zero.
  Values are taken to fit the declared precision.
\<close>

definition numeric_round :: "nat \<Rightarrow> decimal \<Rightarrow> decimal" where
  "numeric_round s x =
     (if 0 \<le> x then of_int \<lfloor>x * 10 ^ s + 1 / 2\<rfloor> / 10 ^ s
      else - (of_int \<lfloor>- x * 10 ^ s + 1 / 2\<rfloor> / 10 ^ s))"

definition DECIMAL_10_2 :: "decimal \<Rightarrow> decimal" where
  "DECIMAL_10_2 = numeric_round 2"

definition DECIMAL_5_4 :: "decimal \<Rightarrow> decimal" where
  "DECIMAL_5_4 = numeric_round 4"

section \<open>Commission ledger (\<^verbatim>\<open>crud/referral_crud.py\<close>)\<close>

text \<open>
  \<^verbatim>\<open>create_referral_earning\<close>: build the row from the schema's fields, add, commit,
  refresh. There is no lookup before the insert and the table declares no unique
  constraint besides its primary key, so the insert always goes through.
\<close>

definition create_referral_earning ::
  "db \<Rightarrow> nat \<Rightarrow> ReferralEarningCreate \<Rightarrow> db \<times> referral_earning" where
  "create_referral_earning d now earning_in =
     (let db_earning =
            \<lparr>id_e = referral_earnings_id_seq d,
             user_id = user_id_in earning_in,
             referred_user_id = Some (referred_user_id_in earning_in),
             source_payment_id = Some (source_payment_id_in earning_in),
             commission_amount = DECIMAL_10_2 (commission_amount_in earning_in),
             commission_rate = DECIMAL_5_4 (commission_rate_in earning_in),
             referral_level = referral_level_in earning_in,
             status = status_in earning_in,
             notes_e = notes_in earning_in,
             created_at = now,
             updated_at = now\<rparr>
      in (d\<lparr>referral_earnings := referral_earnings d @ [db_earning],
             referral_earnings_id_seq := referral_earnings_id_seq d + 1\<rparr>,
          db_earning))"

definition get_referral_earning_by_id :: "db \<Rightarrow> int \<Rightarrow> referral_earning option" where
  "get_referral_earning_by_id d earning_id =
     find (\<lambda>e. id_e e = earning_id) (referral_earnings d)"

text \<open>
  \<^verbatim>\<open>updated_at = Column(..., onupdate=func.now())\<close>: the flush writes the row, and
  stamps it, when an attribute has a new value; a row assigned the values it already
  had is not written.
\<close>

definition onupdate_now :: "nat \<Rightarrow> referral_earning \<Rightarrow> referral_earning \<Rightarrow> referral_earning" where
  "onupdate_now now loaded e = (if e = loaded then e else e\<lparr>updated_at := now\<rparr>)"

text \<open>
  \<^verbatim>\<open>update_referral_earning_status\<close>: \<^verbatim>\<open>None\<close> when the row is missing; otherwise
  the new status is assigned whatever the current one is, the notes only when given.
  The commit writes the row back under its primary key.
\<close>

definition update_referral_earning_status ::
  "db \<Rightarrow> nat \<Rightarrow> int \<Rightarrow> ReferralCommissionStatus \<Rightarrow> string option
     \<Rightarrow> db \<times> referral_earning option" where
  "update_referral_earning_status d now earning_id new_status notes_arg =
     (case get_referral_earning_by_id d earning_id of
        None \<Rightarrow> (d, None)
      | Some db_earning \<Rightarrow>
          (let e1 = db_earning\<lparr>status := new_status\<rparr>;
               e2 = (case notes_arg of None \<Rightarrow> e1 | Some n \<Rightarrow> e1\<lparr>notes_e := Some n\<rparr>);
               e3 = onupdate_now now db_earning e2
           in (d\<lparr>referral_earnings :=
                    map (\<lambda>r. if id_e r = earning_id then e3 else r) (referral_earnings d)\<rparr>,
               Some e3)))"

text \<open>
  \<^verbatim>\<open>admin_update_earning_status\<close> (\<^verbatim>\<open>routes/referral_routes.py\<close>): 400 when the
  body carries no status, 404 when the row is missing, otherwise the updated row.
\<close>

definition admin_update_earning_status ::
  "db \<Rightarrow> nat \<Rightarrow> int \<Rightarrow> ReferralEarningUpdate \<Rightarrow> http_exception + db \<times> referral_earning" where
  "admin_update_earning_status d now earning_id body =
     (case status_upd body of
        None \<Rightarrow> Inl (HTTPException 400 ''New status must be provided.'')
      | Some st \<Rightarrow>
          (case update_referral_earning_status d now earning_id st (notes_upd body) of
             (d', None) \<Rightarrow>
               Inl (HTTPException 404
                      (''Referral earning with ID '' @ str_int earning_id @ '' not found.''))
           | (d', Some updated_earning) \<Rightarrow> Inr (d', updated_earning)))"

section \<open>Lineage builder (\<^verbatim>\<open>crud/user_crud.py\<close>)\<close>

text \<open>\<^verbatim>\<open>schemas/user_schema.py\<close>: the request shapes of registration.\<close>

record UserCreateInternal =
  email_in :: string
  role_in :: "string option"
  firebase_uid_in :: string
  referral_code_in :: "string option"
  referred_by_id_in :: "int option"

record TokenData =
  firebase_uid_tok :: string
  email_tok :: string

record UserRegisterRequest =
  firebase_id_token :: string
  referral_code_used :: "string option"

definition get_user_by_id :: "db \<Rightarrow> int \<Rightarrow> user option" where
  "get_user_by_id d uid = find (\<lambda>u. id_u u = uid) (users d)"

definition get_user_by_email :: "db \<Rightarrow> string \<Rightarrow> user option" where
  "get_user_by_email d e = find (\<lambda>u. email u = e) (users d)"

definition get_user_by_firebase_uid :: "db \<Rightarrow> string \<Rightarrow> user option" where
  "get_user_by_firebase_uid d f = find (\<lambda>u. firebase_uid u = f) (users d)"

definition get_user_by_referral_code :: "db \<Rightarrow> string \<Rightarrow> user option" where
  "get_user_by_referral_code d c = find (\<lambda>u. referral_code u = Some c) (users d)"

text \<open>
  The block \<^verbatim>\<open># Populate upline structure\<close> of \<^verbatim>\<open>create_user\<close>, with its three
  nested guards. \<^verbatim>\<open>referrer_l1.upline_l1\<close> is the relationship over
  \<^verbatim>\<open>upline_l1_id\<close>: the user that column points to, when there is one.
\<close>

definition populate_upline :: "db \<Rightarrow> int option \<Rightarrow> user \<Rightarrow> user" where
  "populate_upline d referred_by db_user =
     (if truthy_id referred_by then
        (case get_user_by_id d (the referred_by) of
           None \<Rightarrow> db_user
         | Some referrer_l1 \<Rightarrow>
             (let u1 = db_user\<lparr>upline_l1_id := Some (id_u referrer_l1)\<rparr>
              in if truthy_id (upline_l1_id referrer_l1) then
                   (let u2 = u1\<lparr>upline_l2_id := upline_l1_id referrer_l1\<rparr>
                    in if truthy_id
                            (case get_user_by_id d (the (upline_l1_id referrer_l1)) of
                               None \<Rightarrow> None
                             | Some referrer_upline_l1 \<Rightarrow> upline_l1_id referrer_upline_l1)
                       then u2\<lparr>upline_l3_id := upline_l2_id referrer_l1\<rparr>
                       else u2)
                 else u1))
      else db_user)"

text \<open>
  What \<^verbatim>\<open>db.commit()\<close> checks for the new row, from the declarations of
  \<^verbatim>\<open>models/user_model.py\<close>: \<^verbatim>\<open>email\<close>, \<^verbatim>\<open>firebase_uid\<close> and
  \<^verbatim>\<open>referral_code\<close> are unique (nulls apart), and \<^verbatim>\<open>referred_by_id\<close> and the
  three upline columns are foreign keys into \<^verbatim>\<open>users.id\<close>. A violation is the
  \<^verbatim>\<open>IntegrityError\<close> branch.
\<close>

definition fk_users :: "db \<Rightarrow> user \<Rightarrow> int option \<Rightarrow> bool" where
  "fk_users d new_row ref =
     (case ref of None \<Rightarrow> True
      | Some i \<Rightarrow> i = id_u new_row \<or> i \<in> set (map id_u (users d)))"

definition integrity_ok :: "db \<Rightarrow> user \<Rightarrow> bool" where
  "integrity_ok d u =
     (email u \<notin> set (map email (users d)) \<and>
      firebase_uid u \<notin> set (map firebase_uid (users d)) \<and>
      (referral_code u = None \<or> referral_code u \<notin> set (map referral_code (users d))) \<and>
      fk_users d u (referred_by_id u) \<and>
      fk_users d u (upline_l1_id u) \<and>
      fk_users d u (upline_l2_id u) \<and>
      fk_users d u (upline_l3_id u))"

text \<open>
  \<^verbatim>\<open>create_user\<close>: \<^verbatim>\<open>None\<close> when the Firebase UID or the e-mail is taken, or
  when the commit fails (rolled back); otherwise the stored user.
\<close>

definition create_user :: "db \<Rightarrow> UserCreateInternal \<Rightarrow> db \<times> user option" where
  "create_user d user_data =
     (if get_user_by_firebase_uid d (firebase_uid_in user_data) \<noteq> None then (d, None)
      else if get_user_by_email d (email_in user_data) \<noteq> None then (d, None)
      else
        (let db_user =
               \<lparr>id_u = users_id_seq d,
                firebase_uid = firebase_uid_in user_data,
                email = email_in user_data,
                role = (case role_in user_data of
                          None \<Rightarrow> ''Subscriber''
                        | Some r \<Rightarrow> if r = [] then ''Subscriber'' else r),
                referral_code = referral_code_in user_data,
                referred_by_id = referred_by_id_in user_data,
                upline_l1_id = None,
                upline_l2_id = None,
                upline_l3_id = None\<rparr>;
             db_user = populate_upline d (referred_by_id_in user_data) db_user
         in if integrity_ok d db_user
            then (d\<lparr>users := users d @ [db_user], users_id_seq := users_id_seq d + 1\<rparr>,
                  Some db_user)
            else (d, None)))"

section \<open>Registration (\<^verbatim>\<open>routes/auth_routes.py\<close>)\<close>

text \<open>
  \<^verbatim>\<open>generate_unique_referral_code\<close> draws \<^verbatim>\<open>secrets.token_hex(4).upper()\<close> until
  a code is free. The draws are the list \<open>draws\<close>; \<open>None\<close> is a run that has not
  returned when they are used up.
\<close>

fun generate_unique_referral_code :: "db \<Rightarrow> string list \<Rightarrow> string option" where
  "generate_unique_referral_code d [] = None"
| "generate_unique_referral_code d (code # draws) =
     (if get_user_by_referral_code d code = None then Some code
      else generate_unique_referral_code d draws)"

text \<open>
  Lines 74 to 84 of \<^verbatim>\<open>register_user_after_firebase\<close>: the referral code of the
  request, resolved to a user id. An empty or absent code is no code; a code that no
  user owns raises 400.
\<close>

definition resolve_referral_code :: "db \<Rightarrow> string option \<Rightarrow> http_exception + int option" where
  "resolve_referral_code d code_used =
     (case code_used of
        None \<Rightarrow> Inr None
      | Some c \<Rightarrow>
          if c = [] then Inr None
          else (case get_user_by_referral_code d c of
                  None \<Rightarrow> Inl (HTTPException 400 (''Invalid referral code: '' @ c))
                | Some referrer \<Rightarrow> Inr (Some (id_u referrer))))"

text \<open>
  \<^verbatim>\<open>register_user_after_firebase\<close>. \<open>verify\<close> is \<^verbatim>\<open>verify_firebase_id_token\<close>,
  the identity provider's answer. The outer \<open>None\<close> is the run in which code generation
  has not returned.
\<close>

definition register_user_after_firebase ::
  "(string \<Rightarrow> http_exception + TokenData) \<Rightarrow> string list \<Rightarrow> db \<Rightarrow> UserRegisterRequest
     \<Rightarrow> (http_exception + db \<times> user) option" where
  "register_user_after_firebase verify draws d payload =
     (case verify (firebase_id_token payload) of
        Inl e \<Rightarrow> Some (Inl e)
      | Inr token_data \<Rightarrow>
          if get_user_by_firebase_uid d (firebase_uid_tok token_data) \<noteq> None
          then Some (Inl (HTTPException 409 ''User with this Firebase UID already exists.''))
          else if get_user_by_email d (email_tok token_data) \<noteq> None
          then Some (Inl (HTTPException 409 ''User with this email already exists.''))
          else
            (case resolve_referral_code d (referral_code_used payload) of
               Inl e \<Rightarrow> Some (Inl e)
             | Inr referred_by_user_id \<Rightarrow>
                 (case generate_unique_referral_code d draws of
                    None \<Rightarrow> None
                  | Some new_referral_code \<Rightarrow>
                      (case create_user d
                              \<lparr>email_in = email_tok token_data,
                               role_in = Some ''Subscriber'',
                               firebase_uid_in = firebase_uid_tok token_data,
                               referral_code_in = Some new_referral_code,
                               referred_by_id_in = referred_by_user_id\<rparr> of
                         (d', None) \<Rightarrow>
                           Some (Inl (HTTPException 500
                             ''Could not create user account. Please try again later.''))
                       | (d', Some db_user) \<Rightarrow> Some (Inr (d', db_user))))))"

section \<open>Commission rule engine (\<^verbatim>\<open>routes/subscription_routes.py\<close>)\<close>

text \<open>
  The rates are read from the environment on each event
  (\<^verbatim>\<open>Decimal(os.getenv("COMMISSION_RATE_L1", "0.10"))\<close> and its two siblings).
\<close>

record commission_rates =
  COMMISSION_RATE_L1 :: decimal
  COMMISSION_RATE_L2 :: decimal
  COMMISSION_RATE_L3 :: decimal

definition default_rates :: commission_rates where
  "default_rates =
     \<lparr>COMMISSION_RATE_L1 = 1 / 10, COMMISSION_RATE_L2 = 1 / 20, COMMISSION_RATE_L3 = 1 / 50\<rparr>"

text \<open>
  The loop \<^verbatim>\<open>for upline_user_id, rate, level in upline_users_and_rates\<close>: a falsy
  upline is passed over; for any other a \<^verbatim>\<open>PENDING\<close> earning of
  \<^verbatim>\<open>db_payment.amount * rate\<close> is created. Nothing is looked up before the create.
\<close>

fun commission_loop ::
  "db \<Rightarrow> nat \<Rightarrow> user \<Rightarrow> payment \<Rightarrow> (int option \<times> decimal \<times> int) list \<Rightarrow> db" where
  "commission_loop d now paying_user db_payment [] = d"
| "commission_loop d now paying_user db_payment ((upline_user_id, rate, level) # rest) =
     (if truthy_id upline_user_id then
        (let commission_amount = amount db_payment * rate;
             earning_create_data =
               \<lparr>user_id_in = the upline_user_id,
                referred_user_id_in = id_u paying_user,
                source_payment_id_in = id_p db_payment,
                commission_amount_in = commission_amount,
                commission_rate_in = rate,
                referral_level_in = level,
                status_in = PENDING,
                notes_in = None\<rparr>
         in commission_loop (fst (create_referral_earning d now earning_create_data))
              now paying_user db_payment rest)
      else commission_loop d now paying_user db_payment rest)"

text \<open>
  The block \<^verbatim>\<open># --- Commission Calculation ---\<close> of the
  \<^verbatim>\<open>invoice.payment_succeeded\<close> branch of \<^verbatim>\<open>stripe_webhook\<close>, entered with
  the payer's id and the payment record found or created just before.
\<close>

definition commission_calculation ::
  "commission_rates \<Rightarrow> db \<Rightarrow> nat \<Rightarrow> int \<Rightarrow> payment option \<Rightarrow> db" where
  "commission_calculation rates d now user_id_for_payment db_payment =
     (case (get_user_by_id d user_id_for_payment, db_payment) of
        (Some paying_user, Some p) \<Rightarrow>
          commission_loop d now paying_user p
            [(upline_l1_id paying_user, COMMISSION_RATE_L1 rates, 1),
             (upline_l2_id paying_user, COMMISSION_RATE_L2 rates, 2),
             (upline_l3_id paying_user, COMMISSION_RATE_L3 rates, 3)]
      | _ \<Rightarrow> d)"

section \<open>Downline traversal and statistics (\<^verbatim>\<open>crud/referral_crud.py\<close>)\<close>

text \<open>
  The two shapes of query the traversal sends to the \<^verbatim>\<open>users\<close> table. In SQL a
  null \<^verbatim>\<open>upline_l1_id\<close> matches neither.
\<close>

datatype user_query = Upline_l1_eq int | Upline_l1_in "int list"

fun run_query :: "db \<Rightarrow> user_query \<Rightarrow> user list" where
  "run_query d (Upline_l1_eq uid) = filter (\<lambda>u. upline_l1_id u = Some uid) (users d)"
| "run_query d (Upline_l1_in ids) =
     filter (\<lambda>u. case upline_l1_id u of None \<Rightarrow> False | Some i \<Rightarrow> i \<in> set ids) (users d)"

text \<open>
  \<^verbatim>\<open>get_downline_users_flat\<close>, returning the dictionary together with the queries
  it has sent, in order.
\<close>

definition get_downline_users_flat ::
  "db \<Rightarrow> int \<Rightarrow> int \<Rightarrow> (int \<rightharpoonup> user list) \<times> user_query list" where
  "get_downline_users_flat d uid max_levels =
     (let downline_by_level =
            (\<lambda>level. if 1 \<le> level \<and> level \<le> max_levels then Some [] else None);
          q1 = Upline_l1_eq uid;
          level1_users = run_query d q1
      in if level1_users = [] then (downline_by_level, [q1])
         else
           (let downline_by_level = downline_by_level(1 \<mapsto> level1_users)
            in if max_levels \<ge> 2 then
                 (let level1_ids = map id_u level1_users
                  in if level1_ids \<noteq> [] then
                       (let q2 = Upline_l1_in level1_ids;
                            level2_users = run_query d q2
                        in if level2_users = [] then (downline_by_level, [q1, q2])
                           else
                             (let downline_by_level = downline_by_level(2 \<mapsto> level2_users)
                              in if max_levels \<ge> 3 then
                                   (let level2_ids = map id_u level2_users
                                    in if level2_ids \<noteq> [] then
                                         (let q3 = Upline_l1_in level2_ids;
                                              level3_users = run_query d q3
                                          in (downline_by_level(3 \<mapsto> level3_users),
                                              [q1, q2, q3]))
                                       else (downline_by_level, [q1, q2]))
                                 else (downline_by_level, [q1, q2])))
                     else (downline_by_level, [q1]))
               else (downline_by_level, [q1])))"

text \<open>\<^verbatim>\<open>schemas/referral_schema.py\<close>: \<^verbatim>\<open>ReferralStats\<close>.\<close>

record ReferralStats =
  total_direct_referrals :: int
  total_l1_referrals :: int
  total_l2_referrals :: int
  total_l3_referrals :: int
  pending_commission_total :: decimal
  approved_commission_total :: decimal
  paid_commission_total :: decimal
  lifetime_commission_total :: decimal

text \<open>
  \<^verbatim>\<open>func.sum(...)...scalar()\<close> is null over no rows; \<^verbatim>\<open>x or Decimal("0.00")\<close>
  replaces a null, and a zero, by \<^verbatim>\<open>Decimal("0.00")\<close>.
\<close>

definition func_sum :: "decimal list \<Rightarrow> decimal option" where
  "func_sum xs = (if xs = [] then None else Some (sum_list xs))"

definition or_decimal :: "decimal option \<Rightarrow> decimal \<Rightarrow> decimal" where
  "or_decimal x dflt = (case x of None \<Rightarrow> dflt | Some v \<Rightarrow> if v = 0 then dflt else v)"

definition commission_sum :: "db \<Rightarrow> int \<Rightarrow> ReferralCommissionStatus \<Rightarrow> decimal" where
  "commission_sum d uid st =
     or_decimal
       (func_sum (map commission_amount
          (filter (\<lambda>e. user_id e = uid \<and> status e = st) (referral_earnings d))))
       0"

definition get_referral_stats_for_user :: "db \<Rightarrow> int \<Rightarrow> ReferralStats" where
  "get_referral_stats_for_user d uid =
     (let direct = int (length (run_query d (Upline_l1_eq uid)));
          level1_ids = map id_u (run_query d (Upline_l1_eq uid));
          l2 = int (length (run_query d (Upline_l1_in level1_ids)));
          level2_ids = map id_u (run_query d (Upline_l1_in level1_ids));
          l3 = int (length (run_query d (Upline_l1_in level2_ids)));
          pending_sum = commission_sum d uid PENDING;
          approved_sum = commission_sum d uid APPROVED;
          paid_sum = commission_sum d uid PAID
      in \<lparr>total_direct_referrals = direct,
          total_l1_referrals = direct,
          total_l2_referrals = l2,
          total_l3_referrals = l3,
          pending_commission_total = pending_sum,
          approved_commission_total = approved_sum,
          paid_commission_total = paid_sum,
          lifetime_commission_total = pending_sum + approved_sum + paid_sum\<rparr>)"

section \<open>Reachable stores and the lineage invariant\<close>

text \<open>
  \<^verbatim>\<open>create_user\<close> is the only place in the repository that inserts a user or writes
  an upline column, and no user is ever deleted. Every other writer (the admin update
  of e-mail and role, the Stripe customer id, the ledger and the commission loop) leaves
  the ids, the upline columns and the users sequence as they are; the rule
  \<open>other_columns\<close> stands for all of them.
\<close>

definition lineage_row :: "user \<Rightarrow> int \<times> int option \<times> int option \<times> int option" where
  "lineage_row u = (id_u u, upline_l1_id u, upline_l2_id u, upline_l3_id u)"

inductive reachable :: "db \<Rightarrow> bool" where
  init: "reachable empty_db"
| registered: "reachable d \<Longrightarrow> create_user d user_data = (d', r) \<Longrightarrow> reachable d'"
| other_columns:
    "reachable d \<Longrightarrow> map lineage_row (users d') = map lineage_row (users d) \<Longrightarrow>
     users_id_seq d' = users_id_seq d \<Longrightarrow> reachable d'"

text \<open>
  A user's lineage is consistent when it is the one-step shift of the lineage of the
  user its first pointer names.
\<close>

definition lineage_of :: "db \<Rightarrow> user \<Rightarrow> bool" where
  "lineage_of d u =
     (case upline_l1_id u of
        None \<Rightarrow> upline_l2_id u = None \<and> upline_l3_id u = None
      | Some a \<Rightarrow>
          (case get_user_by_id d a of
             None \<Rightarrow> False
           | Some r \<Rightarrow> upline_l2_id u = upline_l1_id r \<and> upline_l3_id u = upline_l2_id r))"

definition lineage_inv :: "db \<Rightarrow> bool" where
  "lineage_inv d =
     (1 \<le> users_id_seq d \<and>
      (\<forall>u \<in> set (users d). 1 \<le> id_u u \<and> id_u u < users_id_seq d \<and> lineage_of d u))"

section \<open>Vocabulary of the statements\<close>

text \<open>The rows an operation has appended to the ledger.\<close>

definition new_rows :: "db \<Rightarrow> db \<Rightarrow> referral_earning list" where
  "new_rows d d' = drop (length (referral_earnings d)) (referral_earnings d')"


text \<open>A row without its primary key and its two timestamps.\<close>

definition earning_content ::
  "referral_earning \<Rightarrow>
     int \<times> int option \<times> int option \<times> decimal \<times> decimal \<times> int \<times> ReferralCommissionStatus
       \<times> string option" where
  "earning_content e =
     (user_id e, referred_user_id e, source_payment_id e, commission_amount e,
      commission_rate e, referral_level e, status e, notes_e e)"




definition level_earner_amount_status ::
  "referral_earning \<Rightarrow> int \<times> int \<times> decimal \<times> ReferralCommissionStatus" where
  "level_earner_amount_status e =
     (referral_level e, user_id e, commission_amount e, status e)"

text \<open>
  The downline as the specification words it (section 4.4): level 1 are the users whose
  \<^verbatim>\<open>upline_l1_id\<close> is the user, level 2 those whose \<^verbatim>\<open>upline_l1_id\<close> is the id
  of a level-1 user, level 3 those whose \<^verbatim>\<open>upline_l1_id\<close> is the id of a level-2
  user.
\<close>

definition getDownline_spec :: "db \<Rightarrow> int \<Rightarrow> (int \<rightharpoonup> user list)" where
  "getDownline_spec d uid =
     (let level1 = filter (\<lambda>u. upline_l1_id u = Some uid) (users d);
          level2 = filter (\<lambda>u. \<exists>v \<in> set level1. upline_l1_id u = Some (id_u v)) (users d);
          level3 = filter (\<lambda>u. \<exists>v \<in> set level2. upline_l1_id u = Some (id_u v)) (users d)
      in [1 \<mapsto> level1, 2 \<mapsto> level2, 3 \<mapsto> level3])"

text \<open>What the commission loop hands to the ledger for one entry of its list.\<close>

definition expected_content ::
  "user \<Rightarrow> payment \<Rightarrow> int option \<times> decimal \<times> int \<Rightarrow>
     int \<times> int option \<times> int option \<times> decimal \<times> decimal \<times> int \<times> ReferralCommissionStatus
       \<times> string option" where
  "expected_content pu p t =
     (case t of (upline, rate, level) \<Rightarrow>
        (the upline, Some (id_u pu), Some (id_p p), DECIMAL_10_2 (amount p * rate),
         DECIMAL_5_4 rate, level, PENDING, None))"

section \<open>Example data\<close>

text \<open>
  An identity provider that accepts every token, the chain of four registrations of the
  specification's lineage example (each user referred by the one before), and a payment
  of 100.00.
\<close>

definition example_verify :: "string \<Rightarrow> http_exception + TokenData" where
  "example_verify t = Inr \<lparr>firebase_uid_tok = t, email_tok = t @ ''@example.org''\<rparr>"

definition example_user :: "string \<Rightarrow> int option \<Rightarrow> UserCreateInternal" where
  "example_user name ref =
     \<lparr>email_in = name @ ''@example.org'', role_in = None, firebase_uid_in = name,
      referral_code_in = Some name, referred_by_id_in = ref\<rparr>"

definition chain1 :: db where
  "chain1 = fst (create_user empty_db (example_user ''u1'' None))"

definition chain2 :: db where
  "chain2 = fst (create_user chain1 (example_user ''u2'' (Some 1)))"

definition chain3 :: db where
  "chain3 = fst (create_user chain2 (example_user ''u3'' (Some 2)))"

definition chain4 :: db where
  "chain4 = fst (create_user chain3 (example_user ''u4'' (Some 3)))"

definition example_payment :: payment where
  "example_payment = \<lparr>id_p = 7, payer_user_id = Some 4, amount = 100\<rparr>"


text \<open>The ledger after the payment of user 2, and after its one row has been paid out.\<close>

definition ledger_pending :: db where
  "ledger_pending = commission_calculation default_rates chain2 5 2 (Some example_payment)"

definition ledger_paid :: db where
  "ledger_paid =
     fst (update_referral_earning_status
            (fst (update_referral_earning_status ledger_pending 6 1 APPROVED None))
            7 1 PAID (Some ''wired''))"

text \<open>The ledger of the specification's totals example, all rows earned by user 1.\<close>

definition example_earning ::
  "int \<Rightarrow> decimal \<Rightarrow> ReferralCommissionStatus \<Rightarrow> referral_earning" where
  "example_earning i a st =
     \<lparr>id_e = i, user_id = 1, referred_user_id = Some 2, source_payment_id = Some i,
      commission_amount = a, commission_rate = 1 / 10, referral_level = 1, status = st,
      notes_e = None, created_at = 0, updated_at = 0\<rparr>"

definition ledger_totals :: db where
  "ledger_totals =
     chain2\<lparr>referral_earnings :=
               [example_earning 1 10 PENDING, example_earning 2 5 APPROVED,
                example_earning 3 3 PAID],
            referral_earnings_id_seq := 4\<rparr>"

section \<open>Lookups and the lineage invariant\<close>

lemma find_id_u: "find (\<lambda>u. id_u u = a) us = Some r \<Longrightarrow> id_u r = a \<and> r \<in> set us"
  by (induction us) (auto split: if_splits)

lemma get_user_by_id_Some:
  "get_user_by_id d a = Some r \<Longrightarrow> id_u r = a \<and> r \<in> set (users d)"
  unfolding get_user_by_id_def by (rule find_id_u)

lemma find_lineage:
  "map lineage_row us' = map lineage_row us \<Longrightarrow>
   map_option lineage_row (find (\<lambda>u. id_u u = a) us') =
   map_option lineage_row (find (\<lambda>u. id_u u = a) us)"
proof (induction us arbitrary: us')
  case Nil
  then show ?case by simp
next
  case (Cons u us)
  then obtain v vs where us': "us' = v # vs" by (cases us') auto
  with Cons.prems have hd: "lineage_row v = lineage_row u" and tl: "map lineage_row vs = map lineage_row us"
    by auto
  from hd have "id_u v = id_u u" by (simp add: lineage_row_def)
  with Cons.IH[OF tl] hd show ?case by (simp add: us')
qed

lemma lineage_ofI:
  "upline_l1_id u = None \<Longrightarrow> upline_l2_id u = None \<Longrightarrow> upline_l3_id u = None \<Longrightarrow> lineage_of d u"
  "upline_l1_id u = Some a \<Longrightarrow> get_user_by_id d a = Some r \<Longrightarrow> upline_l2_id u = upline_l1_id r \<Longrightarrow>
     upline_l3_id u = upline_l2_id r \<Longrightarrow> lineage_of d u"
  by (simp_all add: lineage_of_def)

lemma lineage_of_cases:
  assumes "lineage_of d u"
  obtains (root) "upline_l1_id u = None" "upline_l2_id u = None" "upline_l3_id u = None"
  | (child) a r where "upline_l1_id u = Some a" "get_user_by_id d a = Some r"
      "upline_l2_id u = upline_l1_id r" "upline_l3_id u = upline_l2_id r"
proof (cases "upline_l1_id u")
  case None
  with assms root show ?thesis by (simp add: lineage_of_def)
next
  case (Some a)
  with assms child show ?thesis by (cases "get_user_by_id d a") (simp_all add: lineage_of_def)
qed

lemma lineage_invD:
  assumes "lineage_inv d" "u \<in> set (users d)"
  shows "1 \<le> id_u u" "id_u u < users_id_seq d" "lineage_of d u"
  using assms unfolding lineage_inv_def by blast+

lemma lineage_inv_cong:
  assumes m: "map lineage_row (users d') = map lineage_row (users d)"
    and s: "users_id_seq d' = users_id_seq d" and inv: "lineage_inv d"
  shows "lineage_inv d'"
  unfolding lineage_inv_def
proof (intro conjI ballI)
  show "1 \<le> users_id_seq d'" using inv s by (simp add: lineage_inv_def)
next
  fix u' assume u': "u' \<in> set (users d')"
  then have "lineage_row u' \<in> set (map lineage_row (users d))" using m by (metis image_eqI set_map)
  then obtain u where u: "u \<in> set (users d)" and eq: "lineage_row u = lineage_row u'" by auto
  note b = lineage_invD[OF inv u]
  from eq have f: "id_u u' = id_u u" "upline_l1_id u' = upline_l1_id u" "upline_l2_id u' = upline_l2_id u"
    "upline_l3_id u' = upline_l3_id u" by (simp_all add: lineage_row_def)
  show "1 \<le> id_u u'" using b f by simp
  show "id_u u' < users_id_seq d'" using b f s by simp
  from b(3) show "lineage_of d' u'"
  proof (cases rule: lineage_of_cases)
    case root
    then show ?thesis using f by (intro lineage_ofI(1)) simp_all
  next
    case (child a r)
    from find_lineage[OF m, of a] child(2) obtain r' where r': "get_user_by_id d' a = Some r'"
      and "lineage_row r' = lineage_row r"
      by (auto simp: get_user_by_id_def)
    then have "upline_l1_id r' = upline_l1_id r" "upline_l2_id r' = upline_l2_id r"
      by (simp_all add: lineage_row_def)
    with child f r' show ?thesis by (intro lineage_ofI(2)[of _ a _ r']) simp_all
  qed
qed

lemma inv_l1:
  assumes "lineage_inv d" "u \<in> set (users d)" "upline_l1_id u = Some a"
  shows "\<exists>r. get_user_by_id d a = Some r \<and> r \<in> set (users d) \<and> id_u r = a \<and> 1 \<le> a \<and>
             upline_l2_id u = upline_l1_id r \<and> upline_l3_id u = upline_l2_id r"
  using lineage_invD(3)[OF assms(1,2)]
proof (cases rule: lineage_of_cases)
  case root
  with assms(3) show ?thesis by simp
next
  case (child b r)
  with assms(3) have r: "get_user_by_id d a = Some r" by simp
  note m = get_user_by_id_Some[OF r]
  with lineage_invD(1)[OF assms(1), of r] have "1 \<le> a" by simp
  with r child m show ?thesis by simp
qed

lemma inv_l1_none:
  "lineage_inv d \<Longrightarrow> u \<in> set (users d) \<Longrightarrow> upline_l1_id u = None \<Longrightarrow>
   upline_l2_id u = None \<and> upline_l3_id u = None"
  using lineage_invD(3)[of d u] by (simp add: lineage_of_def)

lemma inv_truthy_l1:
  assumes "lineage_inv d" "u \<in> set (users d)"
  shows "truthy_id (upline_l1_id u) = (upline_l1_id u \<noteq> None)"
proof (cases "upline_l1_id u")
  case None then show ?thesis by simp
next
  case (Some a)
  from inv_l1[OF assms Some] have "1 \<le> a" by blast
  with Some show ?thesis by simp
qed

lemma inv_truthy_l2:
  assumes "lineage_inv d" "u \<in> set (users d)"
  shows "truthy_id (upline_l2_id u) = (upline_l2_id u \<noteq> None)"
proof (cases "upline_l1_id u")
  case None
  with inv_l1_none[OF assms] show ?thesis by simp
next
  case (Some a)
  from inv_l1[OF assms Some] obtain r where r: "r \<in> set (users d)"
    and l: "upline_l2_id u = upline_l1_id r" by blast
  with inv_truthy_l1[OF assms(1) r] show ?thesis by simp
qed

lemma inv_truthy_l3:
  assumes "lineage_inv d" "u \<in> set (users d)"
  shows "truthy_id (upline_l3_id u) = (upline_l3_id u \<noteq> None)"
proof (cases "upline_l1_id u")
  case None
  with inv_l1_none[OF assms] show ?thesis by simp
next
  case (Some a)
  from inv_l1[OF assms Some] obtain r where r: "r \<in> set (users d)"
    and l: "upline_l3_id u = upline_l2_id r" by blast
  with inv_truthy_l2[OF assms(1) r] show ?thesis by simp
qed

lemma populate_upline_unresolved:
  "\<not> truthy_id rb \<or> get_user_by_id d (the rb) = None \<Longrightarrow> populate_upline d rb u0 = u0"
  by (auto simp: populate_upline_def)

lemma populate_upline_id: "id_u (populate_upline d rb u0) = id_u u0"
  by (simp add: populate_upline_def Let_def split: option.split)

lemma populate_upline_resolved:
  assumes inv: "lineage_inv d" and r: "get_user_by_id d rid = Some R"
    and u0: "upline_l2_id u0 = None" "upline_l3_id u0 = None"
  shows "upline_l1_id (populate_upline d (Some rid) u0) = Some (id_u R) \<and>
         upline_l2_id (populate_upline d (Some rid) u0) = upline_l1_id R \<and>
         upline_l3_id (populate_upline d (Some rid) u0) = upline_l2_id R"
proof -
  note m = get_user_by_id_Some[OF r]
  with lineage_invD(1)[OF inv, of R] have t: "truthy_id (Some rid)" by simp
  show ?thesis
  proof (cases "upline_l1_id R")
    case None
    from inv_l1_none[OF inv _ None] m have "upline_l2_id R = None" by simp
    with None t r u0 show ?thesis by (simp add: populate_upline_def Let_def)
  next
    case (Some a)
    from inv_l1[OF inv _ Some] m obtain A where A: "get_user_by_id d a = Some A"
      "A \<in> set (users d)" "1 \<le> a" "upline_l2_id R = upline_l1_id A" by blast
    have ta: "truthy_id (Some a)" using A(3) by simp
    from inv_truthy_l1[OF inv A(2)] have tA: "truthy_id (upline_l1_id A) = (upline_l1_id A \<noteq> None)" .
    show ?thesis
    proof (cases "upline_l1_id A")
      case None
      with Some A(1,4) t ta r u0 show ?thesis by (simp add: populate_upline_def Let_def)
    next
      case (Some b)
      with tA have "truthy_id (Some b)" by simp
      with Some \<open>upline_l1_id R = Some a\<close> A(1,4) t ta r u0 show ?thesis
        by (simp add: populate_upline_def Let_def)
    qed
  qed
qed

lemma create_user_None: "create_user d ud = (d', None) \<Longrightarrow> d' = d"
  by (auto simp: create_user_def Let_def split: if_splits)

lemma create_user_Some:
  assumes "create_user d ud = (d', Some nu)"
  shows "d' = d\<lparr>users := users d @ [nu], users_id_seq := users_id_seq d + 1\<rparr>"
    and "\<exists>u0. nu = populate_upline d (referred_by_id_in ud) u0 \<and> id_u u0 = users_id_seq d \<and>
           upline_l1_id u0 = None \<and> upline_l2_id u0 = None \<and> upline_l3_id u0 = None"
  using assms by (auto simp: create_user_def Let_def split: if_splits)

lemma new_user_lineage:
  assumes inv: "lineage_inv d"
    and u0: "upline_l1_id u0 = None" "upline_l2_id u0 = None" "upline_l3_id u0 = None"
  shows "lineage_of d (populate_upline d rb u0)"
proof (cases "truthy_id rb \<and> get_user_by_id d (the rb) \<noteq> None")
  case False
  then have "populate_upline d rb u0 = u0" by (intro populate_upline_unresolved) blast
  with u0 show ?thesis by (simp add: lineage_ofI(1))
next
  case True
  then obtain rid R where rb: "rb = Some rid" and R: "get_user_by_id d rid = Some R"
    by (cases rb) auto
  from get_user_by_id_Some[OF R] have "id_u R = rid" by simp
  with populate_upline_resolved[OF inv R u0(2,3)] R rb show ?thesis
    by (intro lineage_ofI(2)[of _ rid _ R]) simp_all
qed

lemma find_Some_append: "find P xs = Some r \<Longrightarrow> find P (xs @ ys) = Some r"
  by (induction xs) (auto split: if_splits)

lemma get_user_by_id_append:
  "get_user_by_id d a = Some r \<Longrightarrow>
   get_user_by_id (d\<lparr>users := users d @ [nu], users_id_seq := k\<rparr>) a = Some r"
  by (simp add: get_user_by_id_def find_Some_append)

lemma lineage_of_append:
  assumes "lineage_of d u"
  shows "lineage_of (d\<lparr>users := users d @ [nu], users_id_seq := k\<rparr>) u"
  using assms
proof (cases rule: lineage_of_cases)
  case root
  then show ?thesis by (rule lineage_ofI(1))
next
  case (child a r)
  from child(1) get_user_by_id_append[OF child(2)] child(3,4) show ?thesis
    by (rule lineage_ofI(2))
qed

lemma create_user_inv:
  assumes inv: "lineage_inv d" and c: "create_user d ud = (d', r)"
  shows "lineage_inv d'"
proof (cases r)
  case None
  with c create_user_None inv show ?thesis by blast
next
  case (Some nu)
  from create_user_Some[OF c[unfolded Some]] obtain u0 where
    d': "d' = d\<lparr>users := users d @ [nu], users_id_seq := users_id_seq d + 1\<rparr>"
    and nu: "nu = populate_upline d (referred_by_id_in ud) u0" and idu: "id_u u0 = users_id_seq d"
    and u0: "upline_l1_id u0 = None" "upline_l2_id u0 = None" "upline_l3_id u0 = None"
    by blast
  have seq: "1 \<le> users_id_seq d" using inv by (simp add: lineage_inv_def)
  show ?thesis unfolding lineage_inv_def
  proof (intro conjI ballI)
    show "1 \<le> users_id_seq d'" using seq by (simp add: d')
  next
    fix u assume "u \<in> set (users d')"
    then consider "u \<in> set (users d)" | "u = nu" by (auto simp: d')
    then have "1 \<le> id_u u \<and> id_u u < users_id_seq d' \<and> lineage_of d' u"
    proof cases
      case 1
      from lineage_invD[OF inv 1] lineage_of_append[where d = d and u = u and nu = nu]
      show ?thesis by (simp add: d')
    next
      case 2
      have "id_u nu = users_id_seq d" using nu idu populate_upline_id by simp
      moreover have "lineage_of d' nu"
        unfolding d' nu by (rule lineage_of_append[OF new_user_lineage[OF inv u0]])
      ultimately show ?thesis using seq 2 by (simp add: d')
    qed
    then show "1 \<le> id_u u" "id_u u < users_id_seq d'" "lineage_of d' u"
      by blast+
  qed
qed

lemma reachable_lineage_inv: "reachable d \<Longrightarrow> lineage_inv d"
proof (induction rule: reachable.induct)
  case init
  show ?case by (simp add: lineage_inv_def empty_db_def)
next
  case (registered d user_data d' r)
  then show ?case using create_user_inv by blast
next
  case (other_columns d d')
  then show ?case using lineage_inv_cong by blast
qed



section \<open>The rows of the commission loop\<close>

lemma create_referral_earning_rows:
  "referral_earnings (fst (create_referral_earning d now ein)) =
     referral_earnings d @ [snd (create_referral_earning d now ein)]"
  "users (fst (create_referral_earning d now ein)) = users d"
  "users_id_seq (fst (create_referral_earning d now ein)) = users_id_seq d"
  by (simp_all add: create_referral_earning_def Let_def)

lemma commission_loop_rows:
  "\<exists>rows. referral_earnings (commission_loop d now pu p ts) = referral_earnings d @ rows \<and>
     map earning_content rows =
       map (expected_content pu p) (filter (\<lambda>t. truthy_id (fst t)) ts)"
proof (induction ts arbitrary: d)
  case Nil
  show ?case by simp
next
  case (Cons t ts)
  obtain upline rate level where t: "t = (upline, rate, level)" by (cases t)
  show ?case
  proof (cases "truthy_id upline")
    case False
    with Cons.IH[of d] show ?thesis by (simp add: t)
  next
    case True
    let ?ein = "\<lparr>user_id_in = the upline, referred_user_id_in = id_u pu,
                source_payment_id_in = id_p p, commission_amount_in = amount p * rate,
                commission_rate_in = rate, referral_level_in = level, status_in = PENDING,
                notes_in = None\<rparr>"
    let ?d1 = "fst (create_referral_earning d now ?ein)"
    let ?e = "snd (create_referral_earning d now ?ein)"
    from Cons.IH[of ?d1] obtain rows where
      r: "referral_earnings (commission_loop ?d1 now pu p ts) = referral_earnings ?d1 @ rows"
      and c: "map earning_content rows = map (expected_content pu p) (filter (\<lambda>t. truthy_id (fst t)) ts)"
      by blast
    have e: "earning_content ?e = expected_content pu p t"
      by (simp add: earning_content_def expected_content_def t create_referral_earning_def Let_def)
    have "referral_earnings (commission_loop d now pu p (t # ts)) = referral_earnings d @ (?e # rows)"
      using True r by (simp add: t Let_def create_referral_earning_rows)
    moreover have "map earning_content (?e # rows) =
       map (expected_content pu p) (filter (\<lambda>t. truthy_id (fst t)) (t # ts))"
      using True c e by (simp add: t)
    ultimately show ?thesis by blast
  qed
qed


lemma new_rows_append: "referral_earnings d' = referral_earnings d @ rows \<Longrightarrow> new_rows d d' = rows"
  by (simp add: new_rows_def)


lemma commission_calculation_rows:
  assumes "get_user_by_id d uid = Some pu"
  shows "\<exists>rows. referral_earnings (commission_calculation rates d now uid (Some p)) =
            referral_earnings d @ rows \<and>
          map earning_content rows =
            map (expected_content pu p)
              (filter (\<lambda>t. truthy_id (fst t))
                 [(upline_l1_id pu, COMMISSION_RATE_L1 rates, 1),
                  (upline_l2_id pu, COMMISSION_RATE_L2 rates, 2),
                  (upline_l3_id pu, COMMISSION_RATE_L3 rates, 3)])"
proof -
  have "commission_calculation rates d now uid (Some p) =
          commission_loop d now pu p
            [(upline_l1_id pu, COMMISSION_RATE_L1 rates, 1),
             (upline_l2_id pu, COMMISSION_RATE_L2 rates, 2),
             (upline_l3_id pu, COMMISSION_RATE_L3 rates, 3)]"
    using assms by (simp add: commission_calculation_def del: commission_loop.simps)
  then show ?thesis by (simp only: commission_loop_rows)
qed




section \<open>Rounding at a column's scale\<close>





section \<open>Ledger updates\<close>

lemma find_id_e: "find (\<lambda>e. id_e e = k) rows = Some e0 \<Longrightarrow> id_e e0 = k"
  by (induction rows) (auto split: if_splits)

lemma find_map_replace:
  "find (\<lambda>e. id_e e = k) rows = Some e0 \<Longrightarrow> id_e e' = k \<Longrightarrow>
   find (\<lambda>e. id_e e = k) (map (\<lambda>r. if id_e r = k then e' else r) rows) = Some e'"
  by (induction rows) (auto split: if_splits)

lemma filter_map_replace:
  "id_e e' = k \<Longrightarrow>
   filter (\<lambda>r. id_e r \<noteq> k) (map (\<lambda>r. if id_e r = k then e' else r) rows) =
   filter (\<lambda>r. id_e r \<noteq> k) rows"
  by (induction rows) auto

lemma onupdate_now_fields:
  "id_e (onupdate_now now l e) = id_e e"
  "user_id (onupdate_now now l e) = user_id e"
  "referred_user_id (onupdate_now now l e) = referred_user_id e"
  "source_payment_id (onupdate_now now l e) = source_payment_id e"
  "commission_amount (onupdate_now now l e) = commission_amount e"
  "commission_rate (onupdate_now now l e) = commission_rate e"
  "referral_level (onupdate_now now l e) = referral_level e"
  "status (onupdate_now now l e) = status e"
  "notes_e (onupdate_now now l e) = notes_e e"
  "created_at (onupdate_now now l e) = created_at e"
  by (simp_all add: onupdate_now_def)

text \<open>
  What an update of an existing row returns and stores: the loaded row with the new
  status, with the notes when some are given, stamped when that changed it.
\<close>

lemma update_existing:
  assumes "get_referral_earning_by_id d earning_id = Some e"
  shows "\<exists>d' e'. update_referral_earning_status d now earning_id st n = (d', Some e') \<and>
           get_referral_earning_by_id d' earning_id = Some e' \<and>
           e' = onupdate_now now e
                  (case n of None \<Rightarrow> e\<lparr>status := st\<rparr>
                   | Some x \<Rightarrow> e\<lparr>status := st, notes_e := Some x\<rparr>) \<and>
           filter (\<lambda>r. id_e r \<noteq> earning_id) (referral_earnings d') =
             filter (\<lambda>r. id_e r \<noteq> earning_id) (referral_earnings d) \<and>
           length (referral_earnings d') = length (referral_earnings d) \<and>
           users d' = users d"
proof -
  let ?e' = "onupdate_now now e
                  (case n of None \<Rightarrow> e\<lparr>status := st\<rparr>
                   | Some x \<Rightarrow> e\<lparr>status := st, notes_e := Some x\<rparr>)"
  from assms have k: "id_e e = earning_id"
    using find_id_e[of earning_id "referral_earnings d" e]
    by (simp add: get_referral_earning_by_id_def)
  then have k': "id_e ?e' = earning_id"
    by (cases n) (simp_all add: onupdate_now_fields)
  have "update_referral_earning_status d now earning_id st n =
          (d\<lparr>referral_earnings :=
               map (\<lambda>r. if id_e r = earning_id then ?e' else r) (referral_earnings d)\<rparr>,
           Some ?e')"
    using assms by (cases n) (simp_all add: update_referral_earning_status_def Let_def)
  moreover have "get_referral_earning_by_id
          (d\<lparr>referral_earnings :=
               map (\<lambda>r. if id_e r = earning_id then ?e' else r) (referral_earnings d)\<rparr>)
          earning_id = Some ?e'"
    using assms k' by (simp add: get_referral_earning_by_id_def find_map_replace)
  ultimately show ?thesis using k' by (simp add: filter_map_replace)
qed

text \<open>
  C2 (as stated, refuted). The earning of \<open>ledger_paid\<close> is \<^verbatim>\<open>PAID\<close>; the admin
  route asked for \<^verbatim>\<open>PENDING\<close> raises nothing and the stored status becomes
  \<^verbatim>\<open>PENDING\<close>.
\<close>

theorem C2_paid_to_pending_is_applied:
  "map status (referral_earnings ledger_paid) = [PAID] \<and>
   isl (admin_update_earning_status ledger_paid 8 1
          \<lparr>status_upd = Some PENDING, notes_upd = None\<rparr>) = False \<and>
   map status (referral_earnings
     (fst (update_referral_earning_status ledger_paid 8 1 PENDING None))) = [PENDING]"
  by code_simp

text \<open>
  C2 (amended). For every existing earning and every requested status, whatever the
  current one, the admin route returns the row with the requested status and that row is
  what the ledger then holds under the id: no transition is rejected.
\<close>

theorem C2_every_transition_is_applied:
  assumes "get_referral_earning_by_id d earning_id = Some e"
  shows "\<exists>d' e'. admin_update_earning_status d now earning_id
                     \<lparr>status_upd = Some st, notes_upd = n\<rparr> = Inr (d', e') \<and>
                  status e' = st \<and>
                  get_referral_earning_by_id d' earning_id = Some e'"
proof -
  from update_existing[OF assms, of now st n] obtain d' e' where
    u: "update_referral_earning_status d now earning_id st n = (d', Some e')"
    and g: "get_referral_earning_by_id d' earning_id = Some e'"
    and e': "e' = onupdate_now now e
                  (case n of None \<Rightarrow> e\<lparr>status := st\<rparr>
                   | Some x \<Rightarrow> e\<lparr>status := st, notes_e := Some x\<rparr>)"
    by blast
  from e' have "status e' = st" by (cases n) (simp_all add: onupdate_now_fields)
  with u g show ?thesis by (simp add: admin_update_earning_status_def)
qed

lemma ledger_paid_row:
  "get_referral_earning_by_id ledger_paid 1 =
     Some \<lparr>id_e = 1, user_id = 1, referred_user_id = Some 2, source_payment_id = Some 7,
           commission_amount = 10, commission_rate = 1 / 10, referral_level = 1,
           status = PAID, notes_e = Some ''wired'', created_at = 5, updated_at = 7\<rparr>"
  by code_simp

theorem C2_every_transition_is_applied_witness:
  "\<exists>d' e'. admin_update_earning_status ledger_paid 8 1
               \<lparr>status_upd = Some PENDING, notes_upd = None\<rparr> = Inr (d', e') \<and>
            status e' = PENDING \<and> get_referral_earning_by_id d' 1 = Some e'"
  using C2_every_transition_is_applied [OF ledger_paid_row] by simp

text \<open>
  C10. A status update of an existing earning returns and stores a row that agrees with
  the old one on the primary key, the earner, the source user and payment, the amount,
  the rate, the level and the creation time; its notes are the old ones when the notes
  argument is \<^verbatim>\<open>None\<close> and the given ones otherwise. Every other row of the ledger,
  and the users table, are as before.
\<close>

theorem C10_status_update_frame:
  assumes "get_referral_earning_by_id d earning_id = Some e"
  shows "\<exists>d' e'. update_referral_earning_status d now earning_id st n = (d', Some e') \<and>
           get_referral_earning_by_id d' earning_id = Some e' \<and>
           id_e e' = id_e e \<and> user_id e' = user_id e \<and>
           referred_user_id e' = referred_user_id e \<and>
           source_payment_id e' = source_payment_id e \<and>
           commission_amount e' = commission_amount e \<and>
           commission_rate e' = commission_rate e \<and>
           referral_level e' = referral_level e \<and>
           created_at e' = created_at e \<and>
           notes_e e' = (case n of None \<Rightarrow> notes_e e | Some x \<Rightarrow> Some x) \<and>
           filter (\<lambda>r. id_e r \<noteq> earning_id) (referral_earnings d') =
             filter (\<lambda>r. id_e r \<noteq> earning_id) (referral_earnings d) \<and>
           length (referral_earnings d') = length (referral_earnings d) \<and>
           users d' = users d"
proof -
  from update_existing[OF assms, of now st n] obtain d' e' where
    u: "update_referral_earning_status d now earning_id st n = (d', Some e')"
    and g: "get_referral_earning_by_id d' earning_id = Some e'"
    and e': "e' = onupdate_now now e
                  (case n of None \<Rightarrow> e\<lparr>status := st\<rparr>
                   | Some x \<Rightarrow> e\<lparr>status := st, notes_e := Some x\<rparr>)"
    and f: "filter (\<lambda>r. id_e r \<noteq> earning_id) (referral_earnings d') =
             filter (\<lambda>r. id_e r \<noteq> earning_id) (referral_earnings d)"
      "length (referral_earnings d') = length (referral_earnings d)" "users d' = users d"
    by blast
  from e' have "id_e e' = id_e e \<and> user_id e' = user_id e \<and>
           referred_user_id e' = referred_user_id e \<and>
           source_payment_id e' = source_payment_id e \<and>
           commission_amount e' = commission_amount e \<and>
           commission_rate e' = commission_rate e \<and>
           referral_level e' = referral_level e \<and>
           created_at e' = created_at e \<and>
           notes_e e' = (case n of None \<Rightarrow> notes_e e | Some x \<Rightarrow> Some x)"
    by (cases n) (simp_all add: onupdate_now_fields)
  with u g f show ?thesis by simp
qed

theorem C10_status_update_frame_witness:
  "\<exists>d' e'. update_referral_earning_status ledger_paid 9 1 REJECTED None = (d', Some e') \<and>
      get_referral_earning_by_id d' 1 = Some e' \<and>
      id_e e' = 1 \<and> user_id e' = 1 \<and> referred_user_id e' = Some 2 \<and>
      source_payment_id e' = Some 7 \<and> commission_amount e' = 10 \<and>
      commission_rate e' = 1 / 10 \<and> referral_level e' = 1 \<and> created_at e' = 5 \<and>
      notes_e e' = Some ''wired'' \<and>
      filter (\<lambda>r. id_e r \<noteq> 1) (referral_earnings d') =
        filter (\<lambda>r. id_e r \<noteq> 1) (referral_earnings ledger_paid) \<and>
      length (referral_earnings d') = length (referral_earnings ledger_paid) \<and>
      users d' = users ledger_paid"
  using C10_status_update_frame [OF ledger_paid_row, of 9 REJECTED None] by simp


section \<open>Commission generation\<close>



lemma reachable_nonzero:
  assumes "reachable d" "get_user_by_id d uid = Some pu"
  shows "upline_l1_id pu \<noteq> Some 0" "upline_l2_id pu \<noteq> Some 0" "upline_l3_id pu \<noteq> Some 0"
proof -
  from assms(1) have inv: "lineage_inv d" by (rule reachable_lineage_inv)
  from get_user_by_id_Some[OF assms(2)] have m: "pu \<in> set (users d)" by simp
  show "upline_l1_id pu \<noteq> Some 0" using inv_truthy_l1[OF inv m] by auto
  show "upline_l2_id pu \<noteq> Some 0" using inv_truthy_l2[OF inv m] by auto
  show "upline_l3_id pu \<noteq> Some 0" using inv_truthy_l3[OF inv m] by auto
qed


lemma level_earner_amount_status_content:
  "level_earner_amount_status e =
     (case earning_content e of (u, ru, sp, a, r, l, st, n) \<Rightarrow> (l, u, a, st))"
  by (simp add: level_earner_amount_status_def earning_content_def)


lemma reachable_chain:
  "reachable chain1" "reachable chain2" "reachable chain3" "reachable chain4"
proof -
  have c1: "create_user empty_db (example_user ''u1'' None) =
              (chain1, snd (create_user empty_db (example_user ''u1'' None)))"
    by (simp add: chain1_def)
  have c2: "create_user chain1 (example_user ''u2'' (Some 1)) =
              (chain2, snd (create_user chain1 (example_user ''u2'' (Some 1))))"
    by (simp add: chain2_def)
  have c3: "create_user chain2 (example_user ''u3'' (Some 2)) =
              (chain3, snd (create_user chain2 (example_user ''u3'' (Some 2))))"
    by (simp add: chain3_def)
  have c4: "create_user chain3 (example_user ''u4'' (Some 3)) =
              (chain4, snd (create_user chain3 (example_user ''u4'' (Some 3))))"
    by (simp add: chain4_def)
  show r1: "reachable chain1" by (rule reachable.registered[OF reachable.init c1])
  show r2: "reachable chain2" by (rule reachable.registered[OF r1 c2])
  show r3: "reachable chain3" by (rule reachable.registered[OF r2 c3])
  show "reachable chain4" by (rule reachable.registered[OF r3 c4])
qed


lemma chain4_user4:
  "get_user_by_id chain4 4 =
     Some \<lparr>id_u = 4, firebase_uid = ''u4'', email = ''u4@example.org'', role = ''Subscriber'',
           referral_code = Some ''u4'', referred_by_id = Some 3, upline_l1_id = Some 3,
           upline_l2_id = Some 2, upline_l3_id = Some 1\<rparr>"
  by code_simp



text \<open>
  C5. In every reachable store, for a payment of 100.00 by a payer whose three upline
  pointers are set and with the rates 0.10, 0.05 and 0.02, the commission block appends
  exactly three rows: level 1 for the first upline with amount 10.00, level 2 for the
  second with 5.00, level 3 for the third with 2.00, each \<^verbatim>\<open>PENDING\<close>.
\<close>

theorem C5_rates_applied_to_100:
  assumes "reachable d" "get_user_by_id d uid = Some payer"
    and "upline_l1_id payer = Some a1" "upline_l2_id payer = Some a2"
    and "upline_l3_id payer = Some a3" "amount p = 100"
  shows "let d' = commission_calculation default_rates d now uid (Some p)
         in referral_earnings d' = referral_earnings d @ new_rows d d' \<and>
            map level_earner_amount_status (new_rows d d') =
              [(1, a1, 10, PENDING), (2, a2, 5, PENDING), (3, a3, 2, PENDING)]"
proof -
  let ?d' = "commission_calculation default_rates d now uid (Some p)"
  let ?ts = "filter (\<lambda>t. truthy_id (fst t))
                 [(upline_l1_id payer, COMMISSION_RATE_L1 default_rates, 1),
                  (upline_l2_id payer, COMMISSION_RATE_L2 default_rates, 2),
                  (upline_l3_id payer, COMMISSION_RATE_L3 default_rates, 3)]"
  from commission_calculation_rows[OF assms(2), of default_rates now p] obtain rows where
    r: "referral_earnings ?d' = referral_earnings d @ rows"
    and c: "map earning_content rows = map (expected_content payer p) ?ts"
    by blast
  from r have n: "new_rows d ?d' = rows" by (rule new_rows_append)
  from reachable_nonzero[OF assms(1,2)] assms(3-5)
  have nz: "a1 \<noteq> 0" "a2 \<noteq> 0" "a3 \<noteq> 0" by auto
  have "map level_earner_amount_status rows =
          map (\<lambda>c. case c of (u, ru, sp, a, r, l, st, n) \<Rightarrow> (l, u, a, st))
            (map earning_content rows)"
    by (simp add: level_earner_amount_status_content o_def)
  also have "\<dots> = map (\<lambda>c. case c of (u, ru, sp, a, r, l, st, n) \<Rightarrow> (l, u, a, st))
            (map (expected_content payer p) ?ts)"
    by (simp only: c)
  also have "\<dots> = [(1, a1, 10, PENDING), (2, a2, 5, PENDING), (3, a3, 2, PENDING)]"
    using nz assms(3-6)
    by (simp add: expected_content_def default_rates_def DECIMAL_10_2_def numeric_round_def
        floor_eq_iff)
  finally have m: "map level_earner_amount_status rows =
      [(1, a1, 10, PENDING), (2, a2, 5, PENDING), (3, a3, 2, PENDING)]" .
  show ?thesis unfolding Let_def n using r m by simp
qed

lemma example_payment_amount: "amount example_payment = 100"
  by (simp add: example_payment_def)

theorem C5_rates_applied_to_100_witness:
  "let d' = commission_calculation default_rates chain4 5 4 (Some example_payment)
   in referral_earnings d' = referral_earnings chain4 @ new_rows chain4 d' \<and>
      map level_earner_amount_status (new_rows chain4 d') =
        [(1, 3, 10, PENDING), (2, 2, 5, PENDING), (3, 1, 2, PENDING)]"
  using C5_rates_applied_to_100 [OF reachable_chain(4) chain4_user4 _ _ _ example_payment_amount,
          of 3 2 1 5]
  by simp




section \<open>Lineage at registration\<close>

text \<open>
  C4. In every reachable store, a user created with a referrer id that resolves to a user
  \<open>R\<close> is stored with \<^verbatim>\<open>upline_l1_id = R.id\<close>, \<^verbatim>\<open>upline_l2_id = R.upline_l1_id\<close>
  and \<^verbatim>\<open>upline_l3_id = R.upline_l2_id\<close>; a user created with no referrer id is stored
  with the three pointers null.
\<close>

theorem C4_lineage_is_the_referrers_shifted:
  assumes "reachable d" "create_user d user_data = (d', Some db_user)"
  shows "users d' = users d @ [db_user] \<and>
         (\<forall>rid R. referred_by_id_in user_data = Some rid \<and> get_user_by_id d rid = Some R \<longrightarrow>
            upline_l1_id db_user = Some (id_u R) \<and>
            upline_l2_id db_user = upline_l1_id R \<and>
            upline_l3_id db_user = upline_l2_id R) \<and>
         (referred_by_id_in user_data = None \<longrightarrow>
            upline_l1_id db_user = None \<and> upline_l2_id db_user = None \<and>
            upline_l3_id db_user = None)"
proof -
  from assms(1) have inv: "lineage_inv d" by (rule reachable_lineage_inv)
  from create_user_Some[OF assms(2)] obtain u0 where
    d': "d' = d\<lparr>users := users d @ [db_user], users_id_seq := users_id_seq d + 1\<rparr>"
    and nu: "db_user = populate_upline d (referred_by_id_in user_data) u0"
    and u0: "upline_l1_id u0 = None" "upline_l2_id u0 = None" "upline_l3_id u0 = None"
    by blast
  have "users d' = users d @ [db_user]" by (simp add: d')
  moreover have "upline_l1_id db_user = Some (id_u R) \<and>
            upline_l2_id db_user = upline_l1_id R \<and>
            upline_l3_id db_user = upline_l2_id R"
    if "referred_by_id_in user_data = Some rid" "get_user_by_id d rid = Some R" for rid R
    using populate_upline_resolved[OF inv that(2) u0(2,3)] that(1) by (simp add: nu)
  moreover have "upline_l1_id db_user = None \<and> upline_l2_id db_user = None \<and>
            upline_l3_id db_user = None"
    if "referred_by_id_in user_data = None"
    using that u0 by (simp add: nu populate_upline_unresolved)
  ultimately show ?thesis by blast
qed

lemma chain3_user3:
  "get_user_by_id chain3 3 =
     Some \<lparr>id_u = 3, firebase_uid = ''u3'', email = ''u3@example.org'', role = ''Subscriber'',
           referral_code = Some ''u3'', referred_by_id = Some 2, upline_l1_id = Some 2,
           upline_l2_id = Some 1, upline_l3_id = None\<rparr>"
  by code_simp

lemma chain4_created:
  "create_user chain3 (example_user ''u4'' (Some 3)) =
     (chain4,
      Some \<lparr>id_u = 4, firebase_uid = ''u4'', email = ''u4@example.org'', role = ''Subscriber'',
           referral_code = Some ''u4'', referred_by_id = Some 3, upline_l1_id = Some 3,
           upline_l2_id = Some 2, upline_l3_id = Some 1\<rparr>)"
  by code_simp

theorem C4_lineage_is_the_referrers_shifted_witness:
  "reachable chain3 \<and>
   create_user chain3 (example_user ''u4'' (Some 3)) =
     (chain4,
      Some \<lparr>id_u = 4, firebase_uid = ''u4'', email = ''u4@example.org'', role = ''Subscriber'',
           referral_code = Some ''u4'', referred_by_id = Some 3, upline_l1_id = Some 3,
           upline_l2_id = Some 2, upline_l3_id = Some 1\<rparr>) \<and>
   referred_by_id_in (example_user ''u4'' (Some 3)) = Some 3 \<and>
   get_user_by_id chain3 3 =
     Some \<lparr>id_u = 3, firebase_uid = ''u3'', email = ''u3@example.org'', role = ''Subscriber'',
           referral_code = Some ''u3'', referred_by_id = Some 2, upline_l1_id = Some 2,
           upline_l2_id = Some 1, upline_l3_id = None\<rparr> \<and>
   map lineage_row (users chain4) = map lineage_row (users chain3) @ [(4, Some 3, Some 2, Some 1)]"
  using C4_lineage_is_the_referrers_shifted [OF reachable_chain(3) chain4_created]
    reachable_chain(3) chain4_created chain3_user3
  by (simp add: example_user_def lineage_row_def)

section \<open>Registration with a referral code\<close>

text \<open>
  C3 (as stated, refuted). With no user in the store, a registration that supplies the
  referral code \<open>NOSUCH\<close> is answered with HTTP 400 and creates no user.
\<close>

theorem C3_unknown_code_is_rejected_example:
  "register_user_after_firebase example_verify [''AB12CD34''] empty_db
     \<lparr>firebase_id_token = ''u1'', referral_code_used = Some ''NOSUCH''\<rparr> =
   Some (Inl (HTTPException 400 ''Invalid referral code: NOSUCH''))"
  by code_simp

text \<open>
  C3 (amended). A registration whose supplied referral code is non-empty and matches no
  existing user never succeeds: an error is returned and no user is created. When the
  token verifies and neither its Firebase UID nor its e-mail is registered, the error is
  HTTP 400 \<open>Invalid referral code\<close>.
\<close>

theorem C3_unknown_code_is_rejected:
  assumes "referral_code_used payload = Some c" "c \<noteq> []"
    and "get_user_by_referral_code d c = None"
  shows "(\<exists>e. register_user_after_firebase verify draws d payload = Some (Inl e)) \<and>
         (\<forall>token_data. verify (firebase_id_token payload) = Inr token_data \<and>
            get_user_by_firebase_uid d (firebase_uid_tok token_data) = None \<and>
            get_user_by_email d (email_tok token_data) = None \<longrightarrow>
            register_user_after_firebase verify draws d payload =
              Some (Inl (HTTPException 400 (''Invalid referral code: '' @ c))))"
proof -
  have r: "resolve_referral_code d (referral_code_used payload) =
             Inl (HTTPException 400 (''Invalid referral code: '' @ c))"
    using assms by (simp add: resolve_referral_code_def)
  show ?thesis
  proof (cases "verify (firebase_id_token payload)")
    case (Inl e)
    then show ?thesis by (simp add: register_user_after_firebase_def)
  next
    case (Inr token_data)
    then show ?thesis using r by (simp add: register_user_after_firebase_def)
  qed
qed

theorem C3_unknown_code_is_rejected_witness:
  "referral_code_used \<lparr>firebase_id_token = ''u5'', referral_code_used = Some ''NOSUCH''\<rparr>
     = Some ''NOSUCH'' \<and>
   ''NOSUCH'' \<noteq> [] \<and> get_user_by_referral_code chain4 ''NOSUCH'' = None \<and>
   example_verify ''u5'' = Inr \<lparr>firebase_uid_tok = ''u5'', email_tok = ''u5@example.org''\<rparr> \<and>
   get_user_by_firebase_uid chain4 ''u5'' = None \<and>
   get_user_by_email chain4 ''u5@example.org'' = None \<and>
   register_user_after_firebase example_verify [''AB12CD34''] chain4
     \<lparr>firebase_id_token = ''u5'', referral_code_used = Some ''NOSUCH''\<rparr> =
   Some (Inl (HTTPException 400 ''Invalid referral code: NOSUCH''))"
proof -
  have a: "get_user_by_referral_code chain4 ''NOSUCH'' = None" by code_simp
  have b: "get_user_by_firebase_uid chain4 ''u5'' = None" by code_simp
  have c: "get_user_by_email chain4 ''u5@example.org'' = None" by code_simp
  have v: "example_verify ''u5'' = Inr \<lparr>firebase_uid_tok = ''u5'', email_tok = ''u5@example.org''\<rparr>"
    by (simp add: example_verify_def)
  from C3_unknown_code_is_rejected
         [of "\<lparr>firebase_id_token = ''u5'', referral_code_used = Some ''NOSUCH''\<rparr>"
             "''NOSUCH''" chain4 example_verify "[''AB12CD34'']"] a b c v
  show ?thesis by simp
qed


section \<open>Statistics\<close>

lemma or_decimal_func_sum: "or_decimal (func_sum xs) 0 = sum_list xs"
  by (cases xs) (simp_all add: or_decimal_def func_sum_def)

lemma commission_sum_eq:
  "commission_sum d uid st =
     sum_list (map commission_amount
       (filter (\<lambda>e. user_id e = uid \<and> status e = st) (referral_earnings d)))"
  by (simp add: commission_sum_def or_decimal_func_sum)

text \<open>
  C8. The three totals of \<^verbatim>\<open>get_referral_stats_for_user\<close> are the exact sums of the
  amounts of the user's earnings in status \<^verbatim>\<open>PENDING\<close>, \<^verbatim>\<open>APPROVED\<close> and
  \<^verbatim>\<open>PAID\<close>; the lifetime total is their sum; and a total over no matching row is 0.
\<close>

theorem C8_totals_are_sums_by_status:
  "let stats = get_referral_stats_for_user d uid;
       rows = (\<lambda>st. filter (\<lambda>e. user_id e = uid \<and> status e = st) (referral_earnings d))
   in pending_commission_total stats = sum_list (map commission_amount (rows PENDING)) \<and>
      approved_commission_total stats = sum_list (map commission_amount (rows APPROVED)) \<and>
      paid_commission_total stats = sum_list (map commission_amount (rows PAID)) \<and>
      lifetime_commission_total stats =
        pending_commission_total stats + approved_commission_total stats +
        paid_commission_total stats \<and>
      (rows PENDING = [] \<longrightarrow> pending_commission_total stats = 0) \<and>
      (rows APPROVED = [] \<longrightarrow> approved_commission_total stats = 0) \<and>
      (rows PAID = [] \<longrightarrow> paid_commission_total stats = 0)"
  by (simp add: Let_def get_referral_stats_for_user_def commission_sum_eq)

theorem C8_totals_are_sums_by_status_witness:
  "pending_commission_total (get_referral_stats_for_user ledger_totals 1) = 10 \<and>
   approved_commission_total (get_referral_stats_for_user ledger_totals 1) = 5 \<and>
   paid_commission_total (get_referral_stats_for_user ledger_totals 1) = 3 \<and>
   lifetime_commission_total (get_referral_stats_for_user ledger_totals 1) = 18 \<and>
   filter (\<lambda>e. user_id e = 2 \<and> status e = PENDING) (referral_earnings ledger_totals) = [] \<and>
   filter (\<lambda>e. user_id e = 2 \<and> status e = APPROVED) (referral_earnings ledger_totals) = [] \<and>
   filter (\<lambda>e. user_id e = 2 \<and> status e = PAID) (referral_earnings ledger_totals) = [] \<and>
   pending_commission_total (get_referral_stats_for_user ledger_totals 2) = 0 \<and>
   approved_commission_total (get_referral_stats_for_user ledger_totals 2) = 0 \<and>
   paid_commission_total (get_referral_stats_for_user ledger_totals 2) = 0 \<and>
   lifetime_commission_total (get_referral_stats_for_user ledger_totals 2) = 0"
proof -
  have r: "referral_earnings ledger_totals =
             [example_earning 1 10 PENDING, example_earning 2 5 APPROVED,
              example_earning 3 3 PAID]"
    by (simp add: ledger_totals_def)
  from C8_totals_are_sums_by_status [of ledger_totals 1]
       C8_totals_are_sums_by_status [of ledger_totals 2]
  show ?thesis by (simp add: Let_def r example_earning_def)
qed

section \<open>Downline\<close>

lemma run_query_in_ids:
  "run_query d (Upline_l1_in (map id_u vs)) =
     filter (\<lambda>u. \<exists>v \<in> set vs. upline_l1_id u = Some (id_u v)) (users d)"
proof -
  have h: "(case upline_l1_id u of None \<Rightarrow> False | Some i \<Rightarrow> i \<in> set (map id_u vs)) =
        (\<exists>v \<in> set vs. upline_l1_id u = Some (id_u v))" for u
    by (cases "upline_l1_id u") auto
  show ?thesis by (simp only: run_query.simps h)
qed

lemma run_query_in_nil: "run_query d (Upline_l1_in []) = []"
  by (simp split: option.split)

text \<open>
  C9. With \<open>max_levels = 3\<close> the dictionary returned by
  \<^verbatim>\<open>get_downline_users_flat\<close> is the downline of the specification: level 1 the users
  whose \<^verbatim>\<open>upline_l1_id\<close> is the user, level 2 those whose \<^verbatim>\<open>upline_l1_id\<close> is a
  level-1 id, level 3 those whose \<^verbatim>\<open>upline_l1_id\<close> is a level-2 id. When level 1 is
  empty, the three levels are empty and the level-1 query is the only one sent.
\<close>

theorem C9_downline_levels:
  "fst (get_downline_users_flat d uid 3) = getDownline_spec d uid \<and>
   (run_query d (Upline_l1_eq uid) = [] \<longrightarrow>
      get_downline_users_flat d uid 3 =
        ([1 \<mapsto> [], 2 \<mapsto> [], 3 \<mapsto> []], [Upline_l1_eq uid]))"
proof -
  define l1 where "l1 = run_query d (Upline_l1_eq uid)"
  define l2 where "l2 = run_query d (Upline_l1_in (map id_u l1))"
  define l3 where "l3 = run_query d (Upline_l1_in (map id_u l2))"
  have e1: "l1 = filter (\<lambda>u. upline_l1_id u = Some uid) (users d)"
    by (simp add: l1_def)
  have e2: "l2 = filter (\<lambda>u. \<exists>v \<in> set l1. upline_l1_id u = Some (id_u v)) (users d)"
    unfolding l2_def by (rule run_query_in_ids)
  have e3: "l3 = filter (\<lambda>u. \<exists>v \<in> set l2. upline_l1_id u = Some (id_u v)) (users d)"
    unfolding l3_def by (rule run_query_in_ids)
  have spec: "getDownline_spec d uid = [1 \<mapsto> l1, 2 \<mapsto> l2, 3 \<mapsto> l3]"
    unfolding getDownline_spec_def Let_def e1[symmetric] e2[symmetric] e3[symmetric] ..
  have code: "get_downline_users_flat d uid 3 =
      (if l1 = [] then ([1 \<mapsto> [], 2 \<mapsto> [], 3 \<mapsto> []], [Upline_l1_eq uid])
       else if l2 = [] then ([1 \<mapsto> l1, 2 \<mapsto> [], 3 \<mapsto> []],
                             [Upline_l1_eq uid, Upline_l1_in (map id_u l1)])
       else ([1 \<mapsto> l1, 2 \<mapsto> l2, 3 \<mapsto> l3],
             [Upline_l1_eq uid, Upline_l1_in (map id_u l1), Upline_l1_in (map id_u l2)]))"
    unfolding get_downline_users_flat_def Let_def l1_def[symmetric] l2_def[symmetric]
      l3_def[symmetric]
    by (auto simp del: run_query.simps simp add: fun_eq_iff)
  have n2: "l2 = []" if "l1 = []" using that by (simp add: l2_def run_query_in_nil del: run_query.simps)
  have n3: "l3 = []" if "l2 = []" using that by (simp add: l3_def run_query_in_nil del: run_query.simps)
  have "fst (get_downline_users_flat d uid 3) = [1 \<mapsto> l1, 2 \<mapsto> l2, 3 \<mapsto> l3]"
    using n2 n3 by (auto simp: code)
  moreover have "get_downline_users_flat d uid 3 =
        ([1 \<mapsto> [], 2 \<mapsto> [], 3 \<mapsto> []], [Upline_l1_eq uid])" if "l1 = []"
    using that by (simp add: code)
  ultimately show ?thesis unfolding spec l1_def[symmetric] by blast
qed


theorem C9_downline_levels_witness:
  "run_query chain4 (Upline_l1_eq 4) = [] \<and>
   get_downline_users_flat chain4 4 3 =
     ([1 \<mapsto> [], 2 \<mapsto> [], 3 \<mapsto> []], [Upline_l1_eq 4]) \<and>
   fst (get_downline_users_flat chain4 1 3) = getDownline_spec chain4 1 \<and>
   map_option (map id_u) (getDownline_spec chain4 1 1) = Some [2] \<and>
   map_option (map id_u) (getDownline_spec chain4 1 2) = Some [3] \<and>
   map_option (map id_u) (getDownline_spec chain4 1 3) = Some [4]"
proof -
  have e: "run_query chain4 (Upline_l1_eq 4) = []" by code_simp
  have l: "map_option (map id_u) (getDownline_spec chain4 1 1) = Some [2]"
    "map_option (map id_u) (getDownline_spec chain4 1 2) = Some [3]"
    "map_option (map id_u) (getDownline_spec chain4 1 3) = Some [4]"
    by code_simp+
  from C9_downline_levels [of chain4 4] C9_downline_levels [of chain4 1] e l
  show ?thesis by blast
qed


end
